theory Spec2Isabelle
  imports Complex_Main "HOL-Library.Multiset"
begin

section \<open>Data model\<close>

text \<open>
  Arrays of numbers are modelled over exact real arithmetic: a vector is a list of reals
  and a two-dimensional array is its number of columns (\<open>X.shape[1]\<close>) together with
  the list of its rows.  The casts to single precision of the source are the identity
  here.  Division is the division of the reals: where the source divides by zero, numpy
  continues with an infinity or a not-a-number, values that the reals do not have, so
  what is proved about values describes the runs that do not divide by zero.

  Exceptions are values of type \<open>error\<close>.  \<open>ExternalError\<close> stands for an exception raised
  inside an external library; \<open>NotFittedError\<close> is the error kind named by the
  specification, no code path of the source constructs it.
\<close>

datatype error =
  TypeError | IndexError | ValueError | AssertionError | AttributeError | ExternalError
  | NotFittedError

type_synonym vec = "real list"

record matrix =
  shape1 :: nat
  rows :: "vec list"

definition shape0 :: "matrix \<Rightarrow> nat" where
  "shape0 A = length (rows A)"

record SpectralBridges =
  n_clusters :: int
  n_nodes :: int
  M :: real
  n_iter :: int
  n_local_trials :: "int option"
  random_state :: "int option"
  cluster_centers_attr :: "matrix list option"
  eigvals_attr :: "vec option"

text \<open>
  The fields \<open>cluster_centers_attr\<close> and \<open>eigvals_attr\<close> are the attributes
  \<^verbatim>\<open>cluster_centers_\<close> and \<^verbatim>\<open>eigvals_\<close> of the source (an identifier cannot end
  with an underscore here); \<open>None\<close> is Python's \<^verbatim>\<open>None\<close>, stored by the constructor.
\<close>

definition SpectralBridges_init ::
  "int \<Rightarrow> int \<Rightarrow> real \<Rightarrow> int \<Rightarrow> int option \<Rightarrow> int option \<Rightarrow> SpectralBridges" where
  "SpectralBridges_init k n m it nlt rs =
     \<lparr>n_clusters = k, n_nodes = n, M = m, n_iter = it, n_local_trials = nlt,
      random_state = rs, cluster_centers_attr = None, eigvals_attr = None\<rparr>"

section \<open>Array primitives\<close>

definition dot :: "vec \<Rightarrow> vec \<Rightarrow> real" where
  "dot u v = sum_list (map2 (*) u v)"

definition vsub :: "vec \<Rightarrow> vec \<Rightarrow> vec" where
  "vsub u v = map2 (-) u v"

definition sqdist :: "vec \<Rightarrow> vec \<Rightarrow> real" where
  "sqdist u v = dot (vsub u v) (vsub u v)"

text \<open>\<open>np.argmin\<close>: the first position of the least element.\<close>

definition argmin :: "real list \<Rightarrow> nat" where
  "argmin xs = length (takeWhile (\<lambda>x. x \<noteq> Min (set xs)) xs)"

text \<open>
  \<open>index.search(q, 1)\<close> of an exact flat L2 index holding the rows \<open>cs\<close>: the position
  of a row at least squared distance from \<open>q\<close> (the first one here), and \<open>-1\<close> when the
  index is empty.
\<close>

definition search1 :: "vec list \<Rightarrow> vec \<Rightarrow> int" where
  "search1 cs q = (if cs = [] then - 1 else int (argmin (map (sqdist q) cs)))"

fun cumsum_from :: "int \<Rightarrow> int list \<Rightarrow> int list" where
  "cumsum_from acc [] = []"
| "cumsum_from acc (x # xs) = (acc + x) # cumsum_from (acc + x) xs"

definition cumsum :: "int list \<Rightarrow> int list" where
  "cumsum xs = cumsum_from 0 xs"

text \<open>\<open>np.searchsorted(a, v, side="right")\<close>: the first position whose entry exceeds \<open>v\<close>.\<close>

definition searchsorted_right :: "int list \<Rightarrow> int \<Rightarrow> nat" where
  "searchsorted_right a v = length (takeWhile (\<lambda>c. c \<le> v) a)"

text \<open>\<open>np.vstack\<close> of a list of arrays; an empty list and unequal widths are refused.\<close>

definition vstack :: "matrix list \<Rightarrow> error + matrix" where
  "vstack ms =
     (case ms of
        [] \<Rightarrow> Inl ValueError
      | m # _ \<Rightarrow>
          if list_all (\<lambda>m'. shape1 m' = shape1 m) ms
          then Inr \<lparr>shape1 = shape1 m, rows = concat (map rows ms)\<rparr>
          else Inl ValueError)"

text \<open>Python indexing of a one-dimensional array: negative positions count from the end.\<close>

definition py_get :: "'a list \<Rightarrow> int \<Rightarrow> error + 'a" where
  "py_get xs i =
     (let n = int (length xs); j = (if i < 0 then n + i else i)
      in if 0 \<le> j \<and> j < n then Inr (xs ! nat j) else Inl IndexError)"

section \<open>External collaborators\<close>

text \<open>
  The random generator of numpy, the k-means training loop of faiss, the normalized
  Laplacian of scipy and the symmetric eigendecomposition of numpy are not code of the
  repository.  They are parameters of the model: \<open>'g\<close> is the state of the generator, and
  every drawing returns the generator's next state.  \<open>faiss_train d k niter init X\<close> is the
  flat vector of centroids that \<^verbatim>\<open>Clustering.train\<close> leaves behind when started from
  \<open>init\<close>; after training the index holds these centroids.
\<close>

record 'g externals =
  seed_rng :: "int \<Rightarrow> 'g"
  rng_integers :: "'g \<Rightarrow> nat \<Rightarrow> nat \<times> 'g"
  rng_choice :: "'g \<Rightarrow> nat \<Rightarrow> nat \<Rightarrow> real list \<Rightarrow> nat list \<times> 'g"
  faiss_train :: "nat \<Rightarrow> nat \<Rightarrow> int \<Rightarrow> vec list \<Rightarrow> vec list \<Rightarrow> error + real list"
  laplacian_normed :: "matrix \<Rightarrow> error + matrix"
  eigh :: "matrix \<Rightarrow> error + (vec \<times> matrix)"

text \<open>
  \<open>np.random.default_rng(seed)\<close>: an integer seed determines the generator, a negative one
  is refused, and without a seed the generator is seeded from fresh entropy of the
  operating system, here the argument \<open>os\<close>.
\<close>

definition default_rng :: "'g externals \<Rightarrow> 'g \<Rightarrow> int option \<Rightarrow> error + 'g" where
  "default_rng ext os seed =
     (case seed of
        None \<Rightarrow> Inr os
      | Some s \<Rightarrow> if s < 0 then Inl ValueError else Inr (seed_rng ext s))"

section \<open>The class \_KMeans\<close>

record KMeans =
  km_n_clusters :: int
  km_n_iter :: int
  km_n_local_trials :: "int option"
  km_random_state :: "int option"
  km_cluster_centers :: "matrix option"
  km_labels :: "int list option"

definition KMeans_init :: "int \<Rightarrow> int \<Rightarrow> int option \<Rightarrow> int option \<Rightarrow> KMeans" where
  "KMeans_init k it nlt rs =
     \<lparr>km_n_clusters = k, km_n_iter = it, km_n_local_trials = nlt, km_random_state = rs,
      km_cluster_centers = None, km_labels = None\<rparr>"

text \<open>\<open>_dists\<close>: the expanded squared distance of every row of \<open>X\<close> to every row of \<open>y\<close>, clipped at zero.\<close>

definition KMeans_dists :: "vec list \<Rightarrow> vec list \<Rightarrow> real list \<Rightarrow> real list list" where
  "KMeans_dists X y XX =
     map2 (\<lambda>x xx. map (\<lambda>c. max 0 (xx - 2 * dot x c + dot c c)) y) X XX"

text \<open>
  The loop \<open>for i in range(1, n_clusters)\<close> of \<open>_init_centroids\<close>; the fourth argument counts
  the rounds that remain.  \<open>rng.choice\<close> refuses a negative size and probabilities that
  are not numbers (\<open>dists / inertia\<close> when the inertia is zero), \<open>argmin\<close> refuses an empty
  array.
\<close>

fun seeding_loop ::
  "'g externals \<Rightarrow> vec list \<Rightarrow> real list \<Rightarrow> int \<Rightarrow> nat \<Rightarrow> 'g \<Rightarrow> real list \<Rightarrow> real \<Rightarrow> vec list
   \<Rightarrow> error + vec list" where
  "seeding_loop ext X XX nlt 0 rng dists inertia centroids = Inr centroids"
| "seeding_loop ext X XX nlt (Suc r) rng dists inertia centroids =
     (if nlt < 0 then Inl ValueError
      else if inertia = 0 then Inl ValueError
      else
        let drawn = rng_choice ext rng (length X) (nat nlt) (map (\<lambda>d. d / inertia) dists);
            candidate_ids = fst drawn
        in if \<not> list_all (\<lambda>c. c < length X) candidate_ids then Inl IndexError
           else
             let candidates = map (nth X) candidate_ids;
                 current_candidates_dists = KMeans_dists X candidates XX;
                 candidates_dists =
                   map2 (\<lambda>row d. map (\<lambda>v. min v d) row) current_candidates_dists dists;
                 inertias =
                   map (\<lambda>b. sum_list (map (\<lambda>row. row ! b) candidates_dists))
                     [0..<length candidate_ids]
             in if inertias = [] then Inl ValueError
                else
                  let best_inertia = argmin inertias;
                      best_candidate = candidate_ids ! best_inertia
                  in seeding_loop ext X XX nlt r (snd drawn)
                       (map (\<lambda>row. row ! best_inertia) candidates_dists)
                       (inertias ! best_inertia)
                       (centroids @ [X ! best_candidate]))"

text \<open>
  \<open>_init_centroids\<close> returns the centroids and the object itself.  When the field
  \<open>n_local_trials\<close> is \<open>None\<close> the source assigns \<open>2 + int(log(n_clusters))\<close> to it and
  reads the field from then on; a field that holds a number keeps it.
\<close>

definition KMeans_init_centroids ::
  "'g externals \<Rightarrow> 'g \<Rightarrow> KMeans \<Rightarrow> matrix \<Rightarrow> error + (matrix \<times> KMeans)" where
  "KMeans_init_centroids ext os self X =
     (case default_rng ext os (km_random_state self) of
        Inl e \<Rightarrow> Inl e
      | Inr rng \<Rightarrow>
          if km_n_clusters self < 0 then Inl ValueError
          else if shape0 X = 0 then Inl ValueError
          else
            let drawn = rng_integers ext rng (shape0 X);
                first = fst drawn
            in if \<not> first < shape0 X then Inl IndexError
               else if km_n_clusters self = 0 then Inl IndexError
               else
                 let XX = map (\<lambda>x. dot x x) (rows X);
                     dists = map (\<lambda>row. row ! 0) (KMeans_dists (rows X) [rows X ! first] XX);
                     inertia = sum_list dists;
                     trials =
                       (case km_n_local_trials self of
                          None \<Rightarrow> 2 + \<lfloor>ln (real_of_int (km_n_clusters self))\<rfloor>
                        | Some t \<Rightarrow> t);
                     self1 = self\<lparr>km_n_local_trials := Some trials\<rparr>
                 in case seeding_loop ext (rows X) XX trials (nat (km_n_clusters self) - 1)
                           (snd drawn) dists inertia [rows X ! first] of
                      Inl e \<Rightarrow> Inl e
                    | Inr centroids \<Rightarrow>
                        Inr (\<lparr>shape1 = shape1 X, rows = centroids\<rparr>, self1))"

text \<open>\<open>reshape(k, d)\<close> of a flat vector: \<open>k\<close> rows of \<open>d\<close> entries.\<close>

definition reshape :: "nat \<Rightarrow> nat \<Rightarrow> real list \<Rightarrow> vec list" where
  "reshape k d flat = map (\<lambda>i. take d (drop (i * d) flat)) [0..<k]"

definition KMeans_fit :: "'g externals \<Rightarrow> 'g \<Rightarrow> KMeans \<Rightarrow> matrix \<Rightarrow> error + KMeans" where
  "KMeans_fit ext os self X =
     (case KMeans_init_centroids ext os self X of
        Inl e \<Rightarrow> Inl e
      | Inr (init_centroids, self1) \<Rightarrow>
         (case faiss_train ext (shape1 X) (nat (km_n_clusters self1)) (km_n_iter self1)
                 (rows init_centroids) (rows X) of
            Inl e \<Rightarrow> Inl e
          | Inr centroids \<Rightarrow>
              if length centroids \<noteq> nat (km_n_clusters self1) * shape1 X then Inl ValueError
              else
                let centers = reshape (nat (km_n_clusters self1)) (shape1 X) centroids
                in Inr (self1\<lparr>km_cluster_centers :=
                                 Some \<lparr>shape1 = shape1 X, rows = centers\<rparr>,
                               km_labels := Some (map (search1 centers) (rows X))\<rparr>)))"

section \<open>The class \_SpectralClustering\<close>

record SpectralClustering =
  sc_n_clusters :: int
  sc_random_state :: "int option"
  sc_labels :: "int list option"
  sc_eigvals :: "vec option"

definition SpectralClustering_init :: "int \<Rightarrow> int option \<Rightarrow> SpectralClustering" where
  "SpectralClustering_init k rs =
     \<lparr>sc_n_clusters = k, sc_random_state = rs, sc_labels = None, sc_eigvals = None\<rparr>"

text \<open>The slice \<open>eigvecs[:, :k]\<close>; a negative \<open>k\<close> counts from the end.\<close>

definition slice_cols :: "matrix \<Rightarrow> int \<Rightarrow> matrix" where
  "slice_cols A k =
     (let c = (if 0 \<le> k then min (nat k) (shape1 A) else nat (int (shape1 A) + k))
      in \<lparr>shape1 = c, rows = map (take c) (rows A)\<rparr>)"

definition normalize_rows :: "matrix \<Rightarrow> matrix" where
  "normalize_rows A = A\<lparr>rows := map (\<lambda>r. map (\<lambda>v. v / sqrt (dot r r)) r) (rows A)\<rparr>"

definition SpectralClustering_fit ::
  "'g externals \<Rightarrow> 'g \<Rightarrow> SpectralClustering \<Rightarrow> matrix \<Rightarrow> error + SpectralClustering" where
  "SpectralClustering_fit ext os self affinity =
     (case laplacian_normed ext affinity of
        Inl e \<Rightarrow> Inl e
      | Inr L \<Rightarrow>
         (case eigh ext L of
            Inl e \<Rightarrow> Inl e
          | Inr (eigvals, eigvecs) \<Rightarrow>
              let eigvecs1 = normalize_rows (slice_cols eigvecs (sc_n_clusters self));
                  kmeans = KMeans_init (sc_n_clusters self) 20 None (sc_random_state self)
              in case KMeans_fit ext os kmeans eigvecs1 of
                   Inl e \<Rightarrow> Inl e
                 | Inr kmeans1 \<Rightarrow>
                     Inr (self\<lparr>sc_eigvals := Some eigvals, sc_labels := km_labels kmeans1\<rparr>)))"

section \<open>The bridge affinity\<close>

text \<open>The rows of \<open>A\<close> selected by the boolean mask \<open>labels == i\<close>.\<close>

definition mask_rows :: "'a list \<Rightarrow> int list \<Rightarrow> int \<Rightarrow> 'a list" where
  "mask_rows A labels i = map fst (filter (\<lambda>p. snd p = i) (zip A labels))"

definition X_centered_of :: "vec list \<Rightarrow> int list \<Rightarrow> vec list \<Rightarrow> nat \<Rightarrow> vec list" where
  "X_centered_of X labels centers i =
     map (\<lambda>x. vsub x (centers ! i)) (mask_rows X labels (int i))"

definition segments_of :: "vec list \<Rightarrow> nat \<Rightarrow> vec list" where
  "segments_of centers i = map (\<lambda>c. vsub c (centers ! i)) centers"

definition segment_dists :: "vec list \<Rightarrow> nat \<Rightarrow> real list" where
  "segment_dists centers i = (map (\<lambda>s. dot s s) (segments_of centers i))[i := 1]"

definition clipped_projs :: "vec list \<Rightarrow> vec list \<Rightarrow> real list \<Rightarrow> real list list" where
  "clipped_projs Xc segments dists =
     map (\<lambda>x. map2 (\<lambda>s d. max 0 (dot x s / d)) segments dists) Xc"

definition affinity_row :: "vec list \<Rightarrow> vec list \<Rightarrow> nat \<Rightarrow> real list" where
  "affinity_row centers Xc i =
     (let projs = clipped_projs Xc (segments_of centers i) (segment_dists centers i)
      in map (\<lambda>j. sum_list (map (\<lambda>row. row ! j * row ! j) projs)) [0..<length centers])"

definition raw_affinity :: "vec list \<Rightarrow> vec list list \<Rightarrow> real list list" where
  "raw_affinity centers X_centered =
     map (\<lambda>i. affinity_row centers (X_centered ! i) i) [0..<length centers]"

definition pair_counts :: "vec list list \<Rightarrow> nat list list" where
  "pair_counts X_centered =
     (let counts = map length X_centered
      in map (\<lambda>ci. map (\<lambda>cj. cj + ci) counts) counts)"

definition symmetrize :: "real list list \<Rightarrow> nat list list \<Rightarrow> real list list" where
  "symmetrize affinity counts =
     map (\<lambda>i. map (\<lambda>j. sqrt ((affinity ! i ! j + affinity ! j ! i) / real (counts ! i ! j)))
                [0..<length affinity])
       [0..<length affinity]"

definition recenter :: "real list list \<Rightarrow> real list list" where
  "recenter affinity = map (map (\<lambda>a. a - 0.5 * Max (set (concat affinity)))) affinity"

text \<open>\<open>np.quantile\<close> with its default linear interpolation between order statistics.\<close>

definition quantile :: "real list \<Rightarrow> real \<Rightarrow> real" where
  "quantile xs q =
     (let s = sort xs;
          h = q * real (length s - 1);
          lo = nat \<lfloor>h\<rfloor>;
          hi = min (lo + 1) (length s - 1)
      in s ! lo + (s ! hi - s ! lo) * (h - real lo))"

definition contrast_gamma :: "real \<Rightarrow> real list list \<Rightarrow> real" where
  "contrast_gamma m affinity =
     (let q10 = quantile (concat affinity) (1 / 10);
          q90 = quantile (concat affinity) (9 / 10)
      in ln m / (q90 - q10))"

definition rescale_entry :: "real \<Rightarrow> real \<Rightarrow> real" where
  "rescale_entry gamma a = exp (gamma * a)"

definition rescale :: "real \<Rightarrow> real list list \<Rightarrow> real list list" where
  "rescale m affinity = map (map (rescale_entry (contrast_gamma m affinity))) affinity"

definition bridge_affinity :: "real \<Rightarrow> vec list \<Rightarrow> vec list list \<Rightarrow> real list list" where
  "bridge_affinity m centers X_centered =
     rescale m (recenter (symmetrize (raw_affinity centers X_centered) (pair_counts X_centered)))"

section \<open>SpectralBridges.fit\<close>

definition SpectralBridges_fit ::
  "'g externals \<Rightarrow> 'g \<Rightarrow> 'g \<Rightarrow> SpectralBridges \<Rightarrow> matrix \<Rightarrow> error + SpectralBridges" where
  "SpectralBridges_fit ext os1 os2 self X =
     (let kmeans0 =
            KMeans_init (n_nodes self) (n_iter self) (n_local_trials self) (random_state self)
      in case KMeans_fit ext os1 kmeans0 X of
           Inl e \<Rightarrow> Inl e
         | Inr kmeans \<Rightarrow>
            (case (km_cluster_centers kmeans, km_labels kmeans) of
               (Some centers, Some labels) \<Rightarrow>
                 let X_centered =
                       map (X_centered_of (rows X) labels (rows centers)) [0..<nat (n_nodes self)];
                     affinity = bridge_affinity (M self) (rows centers) X_centered;
                     spectralclustering0 =
                       SpectralClustering_init (n_clusters self) (random_state self)
                 in (case SpectralClustering_fit ext os2 spectralclustering0
                            \<lparr>shape1 = nat (n_nodes self), rows = affinity\<rparr> of
                       Inl e \<Rightarrow> Inl e
                     | Inr spectralclustering \<Rightarrow>
                        (case (sc_eigvals spectralclustering, sc_labels spectralclustering) of
                           (Some ev, Some sl) \<Rightarrow>
                             if 0 < n_clusters self \<and> length sl \<noteq> shape0 centers
                             then Inl IndexError
                             else
                               Inr (self\<lparr>eigvals_attr := Some ev,
                                         cluster_centers_attr :=
                                           Some (map (\<lambda>i. \<lparr>shape1 = shape1 centers,
                                                           rows = mask_rows (rows centers) sl (int i)\<rparr>)
                                                   [0..<nat (n_clusters self)])\<rparr>)
                         | _ \<Rightarrow> Inl AttributeError))
             | _ \<Rightarrow> Inl AttributeError))"

section \<open>SpectralBridges.predict and SpectralBridges.normalized_eigengap\<close>

definition predict :: "SpectralBridges \<Rightarrow> matrix \<Rightarrow> error + nat list" where
  "predict self x =
     (case cluster_centers_attr self of
        None \<Rightarrow> Inl TypeError
      | Some groups \<Rightarrow>
          (case vstack groups of
             Inl e \<Rightarrow> Inl e
           | Inr cluster_centers \<Rightarrow>
               let cluster_cutoffs = cumsum (map (\<lambda>cluster. int (shape0 cluster)) groups)
               in if shape1 cluster_centers \<noteq> shape1 x then Inl AssertionError
                  else
                    let winners = map (search1 (rows cluster_centers)) (rows x);
                        labels = map (searchsorted_right cluster_cutoffs) winners
                    in Inr labels))"

definition normalized_eigengap :: "SpectralBridges \<Rightarrow> error + real" where
  "normalized_eigengap self =
     (case eigvals_attr self of
        None \<Rightarrow> Inl TypeError
      | Some ev \<Rightarrow>
          (case py_get ev (n_clusters self) of
             Inl e \<Rightarrow> Inl e
           | Inr a \<Rightarrow>
              (case py_get ev (n_clusters self - 1) of
                 Inl e \<Rightarrow> Inl e
               | Inr b \<Rightarrow>
                  (case py_get ev (n_clusters self) of
                     Inl e \<Rightarrow> Inl e
                   | Inr c \<Rightarrow> Inr ((a - b) / c)))))"

section \<open>The bridge affinity as the specification words it\<close>

text \<open>
  The specification describes the affinity pair by pair.  The following definitions
  follow its words: the segment from centroid \<open>i\<close> to centroid \<open>j\<close>, its squared length
  (fixed to one for a self-pair), the clipped normalized projection of a residual, the sum
  of the squared projections of the members of node \<open>i\<close>, and the symmetrized entry.
\<close>

definition spec_segment :: "vec list \<Rightarrow> nat \<Rightarrow> nat \<Rightarrow> vec" where
  "spec_segment centers i j = vsub (centers ! j) (centers ! i)"

definition spec_dist :: "vec list \<Rightarrow> nat \<Rightarrow> nat \<Rightarrow> real" where
  "spec_dist centers i j =
     (if i = j then 1 else dot (spec_segment centers i j) (spec_segment centers i j))"

definition spec_projection :: "vec \<Rightarrow> vec \<Rightarrow> real \<Rightarrow> real" where
  "spec_projection r segment dst = max 0 (dot r segment / dst)"

definition spec_raw :: "vec list \<Rightarrow> vec list list \<Rightarrow> nat \<Rightarrow> nat \<Rightarrow> real" where
  "spec_raw centers X_centered i j =
     sum_list (map (\<lambda>r. (spec_projection r (spec_segment centers i j) (spec_dist centers i j))\<^sup>2)
                 (X_centered ! i))"

definition spec_affinity :: "vec list \<Rightarrow> vec list list \<Rightarrow> nat \<Rightarrow> nat \<Rightarrow> real" where
  "spec_affinity centers X_centered i j =
     sqrt ((spec_raw centers X_centered i j + spec_raw centers X_centered j i)
           / real (length (X_centered ! i) + length (X_centered ! j)))"

section \<open>Stand-ins for the external collaborators\<close>

text \<open>
  To run the model on concrete inputs the external collaborators are replaced by simple
  deterministic functions over a generator state of type \<open>nat\<close>: the generator draws
  its state modulo the number of rows for the first centroid and the last position for
  every candidate, the Laplacian is passed through, and the eigendecomposition returns
  the eigenvalues \<open>0, 1, \<dots>\<close> with, for two nodes, the columns of an orthogonal matrix as
  eigenvectors (unit vectors otherwise).  \<open>stub_externals\<close> trains by returning the initial centroids;
  \<open>collapsing_externals\<close> does so only when asked for zero rounds and otherwise returns
  \<open>k\<close> copies of the first initial centroid.
\<close>

definition stub_eigh :: "matrix \<Rightarrow> error + (vec \<times> matrix)" where
  "stub_eigh L =
     Inr (map real [0..<shape0 L],
          \<lparr>shape1 = shape0 L,
           rows =
             (if shape0 L = 2 then [[3 / 5, 4 / 5], [4 / 5, - 3 / 5]]
              else map (\<lambda>i. map (\<lambda>j. if i = j then 1 else 0) [0..<shape0 L])
                     [0..<shape0 L])\<rparr>)"

definition stub_externals :: "nat externals" where
  "stub_externals =
     \<lparr>seed_rng = nat,
      rng_integers = (\<lambda>g n. (g mod n, Suc g)),
      rng_choice = (\<lambda>g n size p. (replicate size (n - 1), Suc g)),
      faiss_train = (\<lambda>d k niter init X. Inr (concat init)),
      laplacian_normed = Inr,
      eigh = stub_eigh\<rparr>"


definition example_X :: matrix where
  "example_X = \<lparr>shape1 = 1, rows = [[- 1], [1], [10], [10]]\<rparr>"

definition example_model :: SpectralBridges where
  "example_model = SpectralBridges_init 2 2 10000 0 None (Some 0)"

definition example_model1 :: SpectralBridges where
  "example_model1 = SpectralBridges_init 1 2 10000 0 None (Some 0)"

text \<open>The models that \<open>fit\<close> returns for this input with the two stand-ins.\<close>

definition example_fitted1 :: SpectralBridges where
  "example_fitted1 =
     example_model1
       \<lparr>eigvals_attr := Some [0, 1],
        cluster_centers_attr := Some [\<lparr>shape1 = 1, rows = [[- 1], [10]]\<rparr>]\<rparr>"

definition example_fitted :: SpectralBridges where
  "example_fitted =
     example_model
       \<lparr>eigvals_attr := Some [0, 1],
        cluster_centers_attr :=
          Some [\<lparr>shape1 = 1, rows = [[- 1]]\<rparr>, \<lparr>shape1 = 1, rows = [[10]]\<rparr>]\<rparr>"


section \<open>What a successful call returns\<close>

lemma length_takeWhile_less_iff:
  "length (takeWhile P xs) < length xs \<longleftrightarrow> (\<exists>x\<in>set xs. \<not> P x)"
  by (induction xs) auto

lemma argmin_less: "xs \<noteq> [] \<Longrightarrow> argmin xs < length xs"
  unfolding argmin_def length_takeWhile_less_iff
  using Min_in [of "set xs"] by auto



lemma search1_range: "cs \<noteq> [] \<Longrightarrow> 0 \<le> search1 cs q \<and> search1 cs q < int (length cs)"
  using argmin_less[of "map (sqdist q) cs"] by (simp add: search1_def)

lemma length_reshape: "length (reshape k d flat) = k"
  by (simp add: reshape_def)

lemma KMeans_fit_Inr:
  assumes "KMeans_fit ext os km X = Inr km'"
  shows "0 < km_n_clusters km \<and>
         km_n_clusters km' = km_n_clusters km \<and> km_n_iter km' = km_n_iter km \<and>
         km_random_state km' = km_random_state km \<and>
         km_n_local_trials km' =
           Some (case km_n_local_trials km of
                   None \<Rightarrow> 2 + \<lfloor>ln (real_of_int (km_n_clusters km))\<rfloor>
                 | Some t \<Rightarrow> t) \<and>
         (\<exists>centers. km_cluster_centers km' = Some centers \<and>
            shape1 centers = shape1 X \<and> shape0 centers = nat (km_n_clusters km) \<and>
            km_labels km' = Some (map (search1 (rows centers)) (rows X)))"
  using assms
  by (auto simp: KMeans_fit_def KMeans_init_centroids_def Let_def shape0_def length_reshape
      split: sum.splits if_splits prod.splits)

lemma KMeans_fit_labels:
  assumes "KMeans_fit ext os km X = Inr km'" and "km_labels km' = Some ls"
  shows "length ls = shape0 X \<and> (\<forall>l\<in>set ls. 0 \<le> l \<and> l < km_n_clusters km)"
proof -
  from KMeans_fit_Inr[OF assms(1)] obtain centers where
    k: "0 < km_n_clusters km" and c: "shape0 centers = nat (km_n_clusters km)"
    and l: "km_labels km' = Some (map (search1 (rows centers)) (rows X))"
    by blast
  from k c have ne: "rows centers \<noteq> []" by (auto simp: shape0_def)
  from l assms(2) have ls: "ls = map (search1 (rows centers)) (rows X)" by simp
  show ?thesis
    using search1_range[OF ne] k c by (auto simp: ls shape0_def)
qed

lemma SpectralClustering_fit_Inr:
  assumes "SpectralClustering_fit ext os sc A = Inr sc'"
  shows "0 < sc_n_clusters sc \<and>
         (\<exists>L w v ls. laplacian_normed ext A = Inr L \<and> eigh ext L = Inr (w, v) \<and>
            sc_eigvals sc' = Some w \<and> sc_labels sc' = Some ls \<and> length ls = shape0 v \<and>
            (\<forall>l\<in>set ls. 0 \<le> l \<and> l < sc_n_clusters sc))"
proof -
  from assms obtain L w v km' where
    L: "laplacian_normed ext A = Inr L" and e: "eigh ext L = Inr (w, v)"
    and km: "KMeans_fit ext os (KMeans_init (sc_n_clusters sc) 20 None (sc_random_state sc))
               (normalize_rows (slice_cols v (sc_n_clusters sc))) = Inr km'"
    and sc': "sc' = sc\<lparr>sc_eigvals := Some w, sc_labels := km_labels km'\<rparr>"
    by (auto simp: SpectralClustering_fit_def Let_def split: sum.splits prod.splits)
  from KMeans_fit_Inr[OF km] obtain ls where
    k: "0 < sc_n_clusters sc" and ls: "km_labels km' = Some ls"
    by (auto simp: KMeans_init_def)
  from KMeans_fit_labels[OF km ls]
  have "length ls = shape0 v" "\<forall>l\<in>set ls. 0 \<le> l \<and> l < sc_n_clusters sc"
    by (auto simp: KMeans_init_def shape0_def normalize_rows_def slice_cols_def Let_def)
  with L e k ls sc' show ?thesis by auto
qed

lemma SpectralBridges_fit_Inr:
  assumes "SpectralBridges_fit ext os1 os2 self X = Inr st"
  shows "0 < n_nodes self \<and> 0 < n_clusters self \<and>
    (\<exists>km centers labels sc ev sl.
       KMeans_fit ext os1
         (KMeans_init (n_nodes self) (n_iter self) (n_local_trials self) (random_state self)) X
         = Inr km \<and>
       km_cluster_centers km = Some centers \<and> km_labels km = Some labels \<and>
       shape0 centers = nat (n_nodes self) \<and> shape1 centers = shape1 X \<and>
       SpectralClustering_fit ext os2
         (SpectralClustering_init (n_clusters self) (random_state self))
         \<lparr>shape1 = nat (n_nodes self),
          rows = bridge_affinity (M self) (rows centers)
                   (map (X_centered_of (rows X) labels (rows centers)) [0..<nat (n_nodes self)])\<rparr>
         = Inr sc \<and>
       sc_eigvals sc = Some ev \<and> sc_labels sc = Some sl \<and>
       length sl = nat (n_nodes self) \<and> (\<forall>l\<in>set sl. 0 \<le> l \<and> l < n_clusters self) \<and>
       st = self\<lparr>eigvals_attr := Some ev,
                 cluster_centers_attr :=
                   Some (map (\<lambda>i. \<lparr>shape1 = shape1 centers,
                                   rows = mask_rows (rows centers) sl (int i)\<rparr>)
                           [0..<nat (n_clusters self)])\<rparr>)"
proof -
  let ?km0 = "KMeans_init (n_nodes self) (n_iter self) (n_local_trials self) (random_state self)"
  let ?sc0 = "SpectralClustering_init (n_clusters self) (random_state self)"
  from assms obtain km where km: "KMeans_fit ext os1 ?km0 X = Inr km"
    by (auto simp: SpectralBridges_fit_def Let_def split: sum.splits)
  from KMeans_fit_Inr[OF km] obtain centers where
    n: "0 < n_nodes self" and c: "km_cluster_centers km = Some centers"
    and s1: "shape1 centers = shape1 X" and s0: "shape0 centers = nat (n_nodes self)"
    and l: "km_labels km = Some (map (search1 (rows centers)) (rows X))"
    by (auto simp: KMeans_init_def)
  let ?labels = "map (search1 (rows centers)) (rows X)"
  let ?A = "\<lparr>shape1 = nat (n_nodes self),
          rows = bridge_affinity (M self) (rows centers)
                   (map (X_centered_of (rows X) ?labels (rows centers)) [0..<nat (n_nodes self)])\<rparr>"
  from assms km c l obtain sc where sc: "SpectralClustering_fit ext os2 ?sc0 ?A = Inr sc"
    by (auto simp: SpectralBridges_fit_def Let_def split: sum.splits)
  from SpectralClustering_fit_Inr[OF sc] obtain ev sl where
    k: "0 < n_clusters self" and ev: "sc_eigvals sc = Some ev" and sl: "sc_labels sc = Some sl"
    and r: "\<forall>l\<in>set sl. 0 \<le> l \<and> l < n_clusters self"
    by (auto simp: SpectralClustering_init_def)
  from assms km c l sc ev sl k have len: "length sl = shape0 centers"
    and st: "st = self\<lparr>eigvals_attr := Some ev,
                 cluster_centers_attr :=
                   Some (map (\<lambda>i. \<lparr>shape1 = shape1 centers,
                                   rows = mask_rows (rows centers) sl (int i)\<rparr>)
                           [0..<nat (n_clusters self)])\<rparr>"
    by (auto simp: SpectralBridges_fit_def Let_def split: if_splits)
  show ?thesis
    using n k km c l s0 s1 sc ev sl r len st by auto
qed

section \<open>Grouping rows by label\<close>






section \<open>Two runs on a concrete input\<close>

lemma length_bridge_affinity: "length (bridge_affinity m centers X_centered) = length centers"
  by (simp add: bridge_affinity_def rescale_def recenter_def symmetrize_def raw_affinity_def)

lemma floor_ln_2: "\<lfloor>ln (2::real)\<rfloor> = 0"
proof -
  have "0 \<le> ln (2::real)" by simp
  moreover have "ln (2::real) < 1" by (rule ln_2_less_1)
  ultimately show ?thesis by (simp add: floor_eq_iff)
qed

lemmas run_simps =
  KMeans_fit_def KMeans_init_centroids_def KMeans_init_def default_rng_def
  shape0_def floor_ln_2 KMeans_dists_def dot_def Let_def argmin_def search1_def reshape_def
  sqdist_def vsub_def upt_rec eval_nat_numeral

lemma example_nodes:
  "KMeans_fit stub_externals 0 (KMeans_init 2 0 None (Some 0)) example_X =
   Inr \<lparr>km_n_clusters = 2, km_n_iter = 0, km_n_local_trials = Some 2,
        km_random_state = Some 0,
        km_cluster_centers = Some \<lparr>shape1 = 1, rows = [[- 1], [10]]\<rparr>,
        km_labels = Some [0, 0, 1, 1]\<rparr>"
  by (simp add: run_simps stub_externals_def example_X_def)


lemmas spectral_simps =
  SpectralClustering_fit_def SpectralClustering_init_def stub_eigh_def
  length_bridge_affinity slice_cols_def normalize_rows_def mask_rows_def

lemma example_fit:
  "SpectralBridges_fit stub_externals 0 0 example_model example_X = Inr example_fitted"
  unfolding SpectralBridges_fit_def example_model_def SpectralBridges_init_def example_fitted_def
  apply (simp add: example_nodes [unfolded KMeans_init_def] KMeans_init_def Let_def)
  apply (simp add: spectral_simps run_simps stub_externals_def)
  done

lemma sqrt_9_25: "sqrt (9 / 25) = 3 / 5"
  by (rule real_sqrt_unique) (simp_all add: power2_eq_square)

lemma sqrt_16_25: "sqrt (16 / 25) = 4 / 5"
  by (rule real_sqrt_unique) (simp_all add: power2_eq_square)

lemma example_fit1:
  "SpectralBridges_fit stub_externals 0 0 example_model1 example_X = Inr example_fitted1"
  unfolding SpectralBridges_fit_def example_model1_def SpectralBridges_init_def example_fitted1_def
  apply (simp add: example_nodes [unfolded KMeans_init_def] KMeans_init_def Let_def)
  apply (simp add: spectral_simps run_simps stub_externals_def sqrt_9_25 sqrt_16_25)
  done


section \<open>Entries of the affinity matrix\<close>

lemma raw_affinity_nth:
  assumes "i < length centers" "j < length centers"
  shows "raw_affinity centers X_centered ! i ! j = spec_raw centers X_centered i j"
proof -
  have seg: "segments_of centers i ! j = spec_segment centers i j"
    using assms by (simp add: segments_of_def spec_segment_def)
  have dst: "segment_dists centers i ! j = spec_dist centers i j"
    using assms
    by (simp add: segment_dists_def spec_dist_def nth_list_update segments_of_def
        spec_segment_def)
  have len: "j < length (segments_of centers i)" "j < length (segment_dists centers i)"
    using assms by (simp_all add: segments_of_def segment_dists_def)
  have "raw_affinity centers X_centered ! i ! j =
        sum_list (map (\<lambda>row. row ! j * row ! j)
          (clipped_projs (X_centered ! i) (segments_of centers i) (segment_dists centers i)))"
    using assms by (simp add: raw_affinity_def affinity_row_def)
  also have "\<dots> =
        sum_list (map (\<lambda>r. (spec_projection r (spec_segment centers i j)
                               (spec_dist centers i j))\<^sup>2) (X_centered ! i))"
    using len
    by (simp add: clipped_projs_def comp_def seg dst spec_projection_def power2_eq_square)
  finally show ?thesis by (simp add: spec_raw_def)
qed

lemma pair_counts_nth:
  assumes "i < length X_centered" "j < length X_centered"
  shows "pair_counts X_centered ! i ! j = length (X_centered ! j) + length (X_centered ! i)"
  using assms by (simp add: pair_counts_def)

lemma length_raw_affinity: "length (raw_affinity centers X_centered) = length centers"
  by (simp add: raw_affinity_def)

lemma symmetrize_nth:
  assumes "i < length A" "j < length A"
  shows "symmetrize A C ! i ! j = sqrt ((A ! i ! j + A ! j ! i) / real (C ! i ! j))"
  using assms by (simp add: symmetrize_def)








text \<open>
  Claim C3.  For all nodes \<open>i\<close> and \<open>j\<close> (also \<open>i = j\<close>, where the squared length is fixed to
  one) the entry \<open>raw[i][j]\<close> that the loop of \<open>fit\<close> computes is the sum, over the member
  residuals of node \<open>i\<close>, of the squared clipped projection onto the segment from centroid
  \<open>i\<close> to centroid \<open>j\<close> divided by its squared length, and the symmetrized entry is
  \<open>sqrt((raw[i][j] + raw[j][i]) / (count_i + count_j))\<close>.  The residuals of node \<open>i\<close> are
  the rows labelled \<open>i\<close> minus centroid \<open>i\<close>.  Division is the division of the reals on
  both sides.
\<close>

theorem bridge_affinity_as_specified:
  assumes "i < length centers" and "j < length centers"
    and "Xc = map (X_centered_of X labels centers) [0..<length centers]"
  shows "Xc ! i = map (\<lambda>x. vsub x (centers ! i)) (mask_rows X labels (int i)) \<and>
         raw_affinity centers Xc ! i ! j = spec_raw centers Xc i j \<and>
         symmetrize (raw_affinity centers Xc) (pair_counts Xc) ! i ! j =
           spec_affinity centers Xc i j"
  using assms
  by (simp add: symmetrize_nth length_raw_affinity raw_affinity_nth pair_counts_nth
      spec_affinity_def add.commute X_centered_of_def)

theorem bridge_affinity_as_specified_witness:
  "(0::nat) < length [[- 1], [10::real]] \<and> (1::nat) < length [[- 1], [10::real]] \<and>
   spec_raw [[- 1], [10]]
     (map (X_centered_of [[- 1], [1], [10], [10]] [0, 0, 1, 1] [[- 1], [10]]) [0..<2]) 0 1
     = 4 / 121 \<and>
   raw_affinity [[- 1], [10]]
     (map (X_centered_of [[- 1], [1], [10], [10]] [0, 0, 1, 1] [[- 1], [10]]) [0..<2]) ! 0 ! 1
     = 4 / 121"
  using bridge_affinity_as_specified [of 0 "[[- 1], [10]]" 1
      "map (X_centered_of [[- 1], [1], [10], [10]] [0, 0, 1, 1] [[- 1], [10]]) [0..<2]"
      "[[- 1], [1], [10], [10]]" "[0, 0, 1, 1]"]
  by (simp add: spec_raw_def spec_projection_def spec_segment_def spec_dist_def
      X_centered_of_def mask_rows_def vsub_def dot_def upt_rec eval_nat_numeral power2_eq_square)


text \<open>
  The recentered matrix of the concrete input of the last section, where the first pass
  gives the centroids \<open>-1\<close> and \<open>10\<close> with two members each; its percentiles differ.
\<close>

lemma sqrt_1_121: "sqrt (1 / 121) = 1 / 11"
  by (rule real_sqrt_unique) (simp_all add: power2_eq_square)

lemma example_recentered:
  "recenter
     (symmetrize
        (raw_affinity [[- 1], [10]]
           (map (X_centered_of [[- 1], [1], [10], [10]] [0, 0, 1, 1] [[- 1], [10]]) [0..<2]))
        (pair_counts
           (map (X_centered_of [[- 1], [1], [10], [10]] [0, 0, 1, 1] [[- 1], [10]]) [0..<2])))
   = [[- 1 / 22, 1 / 22], [1 / 22, - 1 / 22]]"
  by (simp add: recenter_def symmetrize_def raw_affinity_def affinity_row_def clipped_projs_def
      segments_of_def segment_dists_def pair_counts_def X_centered_of_def mask_rows_def
      vsub_def dot_def upt_rec eval_nat_numeral sqrt_1_121 Let_def)






section \<open>The groups of the fitted model\<close>




section \<open>Prediction\<close>










section \<open>The eigengap and calls before fit\<close>

lemma py_get_in_range:
  "0 \<le> i \<Longrightarrow> i < int (length xs) \<Longrightarrow> py_get xs i = Inr (xs ! nat i)"
  by (simp add: py_get_def Let_def)

lemma py_get_length: "xs \<noteq> [] \<Longrightarrow> py_get xs (int (length xs)) = Inl IndexError"
  by (simp add: py_get_def Let_def)

lemma fit_keeps_n_clusters:
  "SpectralBridges_fit ext os1 os2 self X = Inr st \<Longrightarrow> n_clusters st = n_clusters self"
  using SpectralBridges_fit_Inr[of ext os1 os2 self X st] by auto

text \<open>
  Claim C6, as amended.  For a model returned by \<open>fit\<close> whose \<open>eigvals_\<close> has more than
  \<open>n_clusters\<close> entries, \<open>normalized_eigengap\<close> returns
  \<open>(eigvals_[n_clusters] - eigvals_[n_clusters - 1]) / eigvals_[n_clusters]\<close>.
\<close>

theorem normalized_eigengap_formula:
  assumes "SpectralBridges_fit ext os1 os2 self X = Inr st"
    and "eigvals_attr st = Some ev"
    and "n_clusters st < int (length ev)"
  shows "normalized_eigengap st =
         Inr ((ev ! nat (n_clusters st) - ev ! nat (n_clusters st - 1)) / ev ! nat (n_clusters st))"
proof -
  have "0 < n_clusters st"
    using SpectralBridges_fit_Inr[OF assms(1)] fit_keeps_n_clusters[OF assms(1)] by simp
  then show ?thesis
    using assms(2,3) by (simp add: normalized_eigengap_def py_get_in_range)
qed

theorem normalized_eigengap_formula_witness:
  "SpectralBridges_fit stub_externals 0 0 example_model1 example_X = Inr example_fitted1 \<and>
   eigvals_attr example_fitted1 = Some [0, 1] \<and>
   n_clusters example_fitted1 < int (length [0, 1 :: real]) \<and>
   normalized_eigengap example_fitted1 = Inr 1"
proof -
  have h2: "eigvals_attr example_fitted1 = Some [0, 1]"
    by (simp add: example_fitted1_def)
  have h3: "n_clusters example_fitted1 < int (length [0, 1 :: real])"
    by (simp add: example_fitted1_def example_model1_def SpectralBridges_init_def)
  show ?thesis
    using example_fit1 h2 h3 normalized_eigengap_formula [OF example_fit1 h2 h3]
    by (simp add: example_fitted1_def example_model1_def SpectralBridges_init_def)
qed

text \<open>
  Claim C6 as stated covers every fitted model.  For the model fitted with
  \<open>n_clusters = n_nodes = 2\<close> the call returns no number: it raises \<open>IndexError\<close>.
\<close>

theorem normalized_eigengap_counterexample:
  "SpectralBridges_fit stub_externals 0 0 example_model example_X = Inr example_fitted \<and>
   normalized_eigengap example_fitted = Inl IndexError"
  using example_fit
  by (simp add: normalized_eigengap_def example_fitted_def example_model_def
      SpectralBridges_init_def py_get_def)

text \<open>
  Claim C10.  When the Laplacian has the shape of the affinity matrix and the
  eigendecomposition returns one eigenvalue per row, a model fitted with
  \<open>n_clusters = n_nodes\<close> stores exactly \<open>n_nodes\<close> eigenvalues, and
  \<open>normalized_eigengap\<close> reads position \<open>n_clusters\<close>, one past the end: the call raises
  \<open>IndexError\<close> although \<open>fit\<close> succeeded.
\<close>

theorem eigengap_fails_when_clusters_equal_nodes:
  assumes "SpectralBridges_fit ext os1 os2 self X = Inr st"
    and "n_clusters self = n_nodes self"
    and "\<forall>A L. laplacian_normed ext A = Inr L \<longrightarrow> shape0 L = shape0 A"
    and "\<forall>L w v. eigh ext L = Inr (w, v) \<longrightarrow> length w = shape0 L"
  shows "\<exists>ev. eigvals_attr st = Some ev \<and> length ev = nat (n_nodes self) \<and>
              normalized_eigengap st = Inl IndexError"
proof -
  from SpectralBridges_fit_Inr[OF assms(1)] obtain centers Xc sc ev gs where
    n: "0 < n_nodes self"
    and s0: "shape0 centers = nat (n_nodes self)"
    and sc: "SpectralClustering_fit ext os2
         (SpectralClustering_init (n_clusters self) (random_state self))
         \<lparr>shape1 = nat (n_nodes self),
          rows = bridge_affinity (M self) (rows centers) Xc\<rparr> = Inr sc"
    and ev: "sc_eigvals sc = Some ev"
    and st: "st = self\<lparr>eigvals_attr := Some ev, cluster_centers_attr := Some gs\<rparr>"
    by blast
  from SpectralClustering_fit_Inr[OF sc] ev obtain L v where
    L: "laplacian_normed ext
          \<lparr>shape1 = nat (n_nodes self), rows = bridge_affinity (M self) (rows centers) Xc\<rparr>
        = Inr L"
    and e: "eigh ext L = Inr (ev, v)"
    by auto
  have "length ev = shape0 L" using assms(4) e by blast
  also have "\<dots> = shape0 \<lparr>shape1 = nat (n_nodes self),
                            rows = bridge_affinity (M self) (rows centers) Xc\<rparr>"
    using assms(3) L by blast
  also have "\<dots> = nat (n_nodes self)"
    using s0 by (simp add: shape0_def length_bridge_affinity)
  finally have len: "length ev = nat (n_nodes self)" .
  then have ne: "ev \<noteq> []" and k: "n_clusters st = int (length ev)"
    using n assms(2) st by auto
  have "normalized_eigengap st = Inl IndexError"
    using st k py_get_length[OF ne] by (simp add: normalized_eigengap_def)
  with st len show ?thesis by simp
qed

theorem eigengap_fails_when_clusters_equal_nodes_witness:
  "SpectralBridges_fit stub_externals 0 0 example_model example_X = Inr example_fitted \<and>
   n_clusters example_model = n_nodes example_model \<and>
   (\<exists>ev. eigvals_attr example_fitted = Some ev \<and> length ev = nat (n_nodes example_model) \<and>
         normalized_eigengap example_fitted = Inl IndexError)"
proof -
  have h2: "n_clusters example_model = n_nodes example_model"
    by (simp add: example_model_def SpectralBridges_init_def)
  have h3: "\<forall>A L. laplacian_normed stub_externals A = Inr L \<longrightarrow> shape0 L = shape0 A"
    by (simp add: stub_externals_def)
  have h4: "\<forall>L w v. eigh stub_externals L = Inr (w, v) \<longrightarrow> length w = shape0 L"
    by (auto simp: stub_externals_def stub_eigh_def)
  show ?thesis
    using example_fit h2
      eigengap_fails_when_clusters_equal_nodes [OF example_fit h2 h3 h4]
    by blast
qed

text \<open>
  Claim C9, as amended.  On a model as the constructor leaves it, \<open>predict\<close> and
  \<open>normalized_eigengap\<close> return no result: both raise \<open>TypeError\<close>, when the attribute that
  is still \<open>None\<close> is stacked or indexed.
\<close>

theorem unfitted_calls_raise_TypeError:
  "predict (SpectralBridges_init k n m it nlt rs) x = Inl TypeError \<and>
   normalized_eigengap (SpectralBridges_init k n m it nlt rs) = Inl TypeError"
  by (simp add: predict_def normalized_eigengap_def SpectralBridges_init_def)

text \<open>
  Claim C9 as stated names the error \<open>NotFittedError\<close>; the error raised is another one.
\<close>

theorem unfitted_calls_counterexample:
  "predict (SpectralBridges_init 3 30 10000 20 None None) \<lparr>shape1 = 2, rows = [[0, 0]]\<rparr>
     \<noteq> Inl NotFittedError \<and>
   normalized_eigengap (SpectralBridges_init 3 30 10000 20 None None) \<noteq> Inl NotFittedError"
  by (simp add: predict_def normalized_eigengap_def SpectralBridges_init_def)

section \<open>Seeds and configuration\<close>

lemma KMeans_fit_seeded:
  "km_random_state km = Some s \<Longrightarrow> KMeans_fit ext os km X = KMeans_fit ext os' km X"
  by (simp add: KMeans_fit_def KMeans_init_centroids_def default_rng_def)

lemma SpectralClustering_fit_seeded:
  assumes "sc_random_state sc = Some s"
  shows "SpectralClustering_fit ext os sc A = SpectralClustering_fit ext os' sc A"
proof -
  have km: "\<And>Y. KMeans_fit ext os (KMeans_init (sc_n_clusters sc) 20 None (sc_random_state sc)) Y =
            KMeans_fit ext os' (KMeans_init (sc_n_clusters sc) 20 None (sc_random_state sc)) Y"
    using assms by (intro KMeans_fit_seeded[of _ s]) (simp add: KMeans_init_def)
  show ?thesis
    unfolding SpectralClustering_fit_def Let_def km ..
qed

lemma SpectralBridges_fit_seeded:
  assumes "random_state self = Some s"
  shows "SpectralBridges_fit ext os1 os2 self X = SpectralBridges_fit ext os1' os2' self X"
proof -
  have 1: "KMeans_fit ext os1
       (KMeans_init (n_nodes self) (n_iter self) (n_local_trials self) (random_state self)) X =
     KMeans_fit ext os1'
       (KMeans_init (n_nodes self) (n_iter self) (n_local_trials self) (random_state self)) X"
    using assms by (intro KMeans_fit_seeded[of _ s]) (simp add: KMeans_init_def)
  have 2: "\<And>A. SpectralClustering_fit ext os2
         (SpectralClustering_init (n_clusters self) (random_state self)) A =
       SpectralClustering_fit ext os2'
         (SpectralClustering_init (n_clusters self) (random_state self)) A"
    using assms by (intro SpectralClustering_fit_seeded[of _ s]) (simp add: SpectralClustering_init_def)
  show ?thesis
    unfolding SpectralBridges_fit_def Let_def 1 2 ..
qed

lemma SpectralBridges_fit_attrs:
  "SpectralBridges_fit ext os1 os2 (self\<lparr>eigvals_attr := a, cluster_centers_attr := b\<rparr>) X =
   SpectralBridges_fit ext os1 os2 self X"
  by (simp add: SpectralBridges_fit_def Let_def split: sum.splits option.splits prod.splits)

text \<open>
  Claim C7.  With a seed in \<open>random_state\<close>, the result of \<open>fit\<close> on given data and
  configuration does not depend on the entropy of the operating system: two calls return
  the same model (or fail alike), and fitting the returned model again returns it
  unchanged.  The one seed determines the generator of \<open>_init_centroids\<close>, which draws the
  first centroid and then the candidates of every round.
\<close>

theorem fit_deterministic_in_seed:
  assumes "random_state self = Some seed"
  shows "SpectralBridges_fit ext os1 os2 self X = SpectralBridges_fit ext os1' os2' self X \<and>
         (\<forall>st. SpectralBridges_fit ext os1 os2 self X = Inr st \<longrightarrow>
               SpectralBridges_fit ext os1' os2' st X = Inr st)"
proof -
  have a: "SpectralBridges_fit ext os1 os2 self X = SpectralBridges_fit ext os1' os2' self X"
    using assms by (rule SpectralBridges_fit_seeded)
  have "SpectralBridges_fit ext os1' os2' st X = Inr st"
    if "SpectralBridges_fit ext os1 os2 self X = Inr st" for st
  proof -
    from SpectralBridges_fit_Inr[OF that] obtain ev gs where
      st: "st = self\<lparr>eigvals_attr := Some ev, cluster_centers_attr := Some gs\<rparr>"
      by blast
    show ?thesis
      using that a unfolding st SpectralBridges_fit_attrs by simp
  qed
  with a show ?thesis by blast
qed

theorem fit_deterministic_in_seed_witness:
  "random_state example_model = Some 0 \<and>
   SpectralBridges_fit stub_externals 0 0 example_model example_X =
     SpectralBridges_fit stub_externals 5 7 example_model example_X \<and>
   SpectralBridges_fit stub_externals 5 7 example_model example_X = Inr example_fitted \<and>
   SpectralBridges_fit stub_externals 5 7 example_fitted example_X = Inr example_fitted"
proof -
  have h: "random_state example_model = Some 0"
    by (simp add: example_model_def SpectralBridges_init_def)
  show ?thesis
    using h example_fit fit_deterministic_in_seed [OF h, of stub_externals 0 0 example_X 5 7]
    by simp
qed

text \<open>Without a seed the first centroid follows the entropy.\<close>

lemma unseeded_draw_depends_on_entropy:
  "KMeans_init_centroids stub_externals 0 (KMeans_init 1 0 None None) example_X \<noteq>
   KMeans_init_centroids stub_externals 1 (KMeans_init 1 0 None None) example_X"
  by (simp add: KMeans_init_centroids_def KMeans_init_def default_rng_def stub_externals_def
      example_X_def shape0_def Let_def)





end
